theory Spec2Isabelle
  imports Main "HOL-Library.Word"
begin

section \<open>Python values and built-ins used by \<^verbatim>\<open>simple_linter.py\<close>\<close>

text \<open>
  A Python \<^verbatim>\<open>str\<close> is modelled as a \<^typ>\<open>string\<close> whose characters stand for the
  code points U+0000 .. U+00FF; the string methods below are Python's on that range.
  Python's unbounded \<^verbatim>\<open>int\<close> is \<^typ>\<open>int\<close>.

  \<open>json\<close> is the value returned by \<^verbatim>\<open>json.loads\<close>: \<^verbatim>\<open>None\<close>, \<^verbatim>\<open>bool\<close>, \<^verbatim>\<open>int\<close>,
  \<^verbatim>\<open>float\<close> (its IEEE-754 bit pattern), \<^verbatim>\<open>str\<close>, \<^verbatim>\<open>list\<close> and \<^verbatim>\<open>dict\<close> (its items; a
  decoded dict has one item per key, and a key is looked up with \<open>map_of\<close>).
\<close>

datatype json =
    JNull
  | JBool bool
  | JInt int
  | JFloat "64 word"
  | JStr string
  | JArr "json list"
  | JObj "(string \<times> json) list"

text \<open>
  The exceptions that can leave \<^verbatim>\<open>lint_file\<close> uncaught. An uncaught exception ends
  \<^verbatim>\<open>main\<close> with a traceback, so a raise is the result \<open>Inl\<close> and carries no state.
\<close>

datatype py_error = AttributeError | TypeError | OSError

text \<open>\<^verbatim>\<open>json.JSONDecodeError\<close> with the two attributes the linter reads.\<close>

record decode_error =
  msg :: string
  lineno :: int

text \<open>
  What the program takes from outside the repository: the decoder \<^verbatim>\<open>json.loads\<close> and
  Python's \<^verbatim>\<open>str()\<close> of a value that is not a \<^verbatim>\<open>str\<close> (used by an f-string).
\<close>

record builtins =
  json_loads :: "string \<Rightarrow> decode_error + json"
  str_of :: "json \<Rightarrow> string"

text \<open>\<^verbatim>\<open>open(filename, 'r').read()\<close>: the text, or the exception raised.\<close>

datatype io_error = FileNotFoundError | OtherOSError

type_synonym filesystem = "string \<Rightarrow> io_error + string"

subsection \<open>Sequencing of calls that may raise\<close>

definition and_then :: "'e + 'a \<Rightarrow> ('a \<Rightarrow> 'e + 'b) \<Rightarrow> 'e + 'b" where
  "and_then r f = (case r of Inl e \<Rightarrow> Inl e | Inr x \<Rightarrow> f x)"

subsection \<open>Integers in f-strings\<close>

definition digit_char :: "nat \<Rightarrow> char" where
  "digit_char d = ''0123456789'' ! d"

fun digits :: "nat \<Rightarrow> string" where
  "digits n = (if n < 10 then [digit_char n] else digits (n div 10) @ [digit_char (n mod 10)])"

declare digits.simps [simp del]

definition str_int :: "int \<Rightarrow> string" where
  "str_int i = (if i < 0 then CHR ''-'' # digits (nat (- i)) else digits (nat i))"

subsection \<open>String methods\<close>

text \<open>\<^verbatim>\<open>str.isspace\<close> of one character: the white space of U+0000 .. U+00FF.\<close>

definition py_isspace :: "char \<Rightarrow> bool" where
  "py_isspace c \<longleftrightarrow>
     c \<in> set [CHR 0x09, CHR 0x0A, CHR 0x0B, CHR 0x0C, CHR 0x0D,
              CHR 0x1C, CHR 0x1D, CHR 0x1E, CHR 0x1F, CHR 0x20, CHR 0x85, CHR 0xA0]"

text \<open>\<^verbatim>\<open>s.strip()\<close>\<close>

definition py_strip :: "string \<Rightarrow> string" where
  "py_strip s = rev (dropWhile py_isspace (rev (dropWhile py_isspace s)))"

text \<open>The cased letters of U+0000 .. U+00FF: upper case and, at the same position, lower case.\<close>

definition upper_letters :: string where
  "upper_letters = ''ABCDEFGHIJKLMNOPQRSTUVWXYZ'' @
     [CHR 0xC0, CHR 0xC1, CHR 0xC2, CHR 0xC3, CHR 0xC4, CHR 0xC5, CHR 0xC6, CHR 0xC7,
      CHR 0xC8, CHR 0xC9, CHR 0xCA, CHR 0xCB, CHR 0xCC, CHR 0xCD, CHR 0xCE, CHR 0xCF,
      CHR 0xD0, CHR 0xD1, CHR 0xD2, CHR 0xD3, CHR 0xD4, CHR 0xD5, CHR 0xD6,
      CHR 0xD8, CHR 0xD9, CHR 0xDA, CHR 0xDB, CHR 0xDC, CHR 0xDD, CHR 0xDE]"

definition lower_letters :: string where
  "lower_letters = ''abcdefghijklmnopqrstuvwxyz'' @
     [CHR 0xE0, CHR 0xE1, CHR 0xE2, CHR 0xE3, CHR 0xE4, CHR 0xE5, CHR 0xE6, CHR 0xE7,
      CHR 0xE8, CHR 0xE9, CHR 0xEA, CHR 0xEB, CHR 0xEC, CHR 0xED, CHR 0xEE, CHR 0xEF,
      CHR 0xF0, CHR 0xF1, CHR 0xF2, CHR 0xF3, CHR 0xF4, CHR 0xF5, CHR 0xF6,
      CHR 0xF8, CHR 0xF9, CHR 0xFA, CHR 0xFB, CHR 0xFC, CHR 0xFD, CHR 0xFE]"

definition lower_char :: "char \<Rightarrow> char" where
  "lower_char c = (case map_of (zip upper_letters lower_letters) c of Some l \<Rightarrow> l | None \<Rightarrow> c)"

text \<open>\<^verbatim>\<open>s.lower()\<close>\<close>

definition py_lower :: "string \<Rightarrow> string" where
  "py_lower s = map lower_char s"

text \<open>\<^verbatim>\<open>c.isupper()\<close> of one character\<close>

definition py_isupper :: "char \<Rightarrow> bool" where
  "py_isupper c \<longleftrightarrow> c \<in> set upper_letters"

text \<open>\<^verbatim>\<open>s.startswith(p)\<close>\<close>

definition startswith :: "string \<Rightarrow> string \<Rightarrow> bool" where
  "startswith s p \<longleftrightarrow> take (length p) s = p"

text \<open>\<^verbatim>\<open>s.split(c)\<close> for a one-character separator: always at least one piece.\<close>

fun split_on :: "char \<Rightarrow> string \<Rightarrow> string list" where
  "split_on c [] = [[]]"
| "split_on c (x # xs) =
     (if x = c then [] # split_on c xs
      else (case split_on c xs of
              [] \<Rightarrow> [[x]]
            | piece # pieces \<Rightarrow> (x # piece) # pieces))"

text \<open>\<^verbatim>\<open>s.split()\<close>: the maximal runs of characters that are not white space.\<close>

fun split_ws_from :: "string \<Rightarrow> string \<Rightarrow> string list" where
  "split_ws_from word [] = (if word = [] then [] else [rev word])"
| "split_ws_from word (x # xs) =
     (if py_isspace x then (if word = [] then [] else [rev word]) @ split_ws_from [] xs
      else split_ws_from (x # word) xs)"

definition py_split :: "string \<Rightarrow> string list" where
  "py_split s = split_ws_from [] s"

text \<open>\<^verbatim>\<open>sep.join(xs)\<close>\<close>

fun join :: "string \<Rightarrow> string list \<Rightarrow> string" where
  "join sep [] = []"
| "join sep [x] = x"
| "join sep (x # y # ys) = x @ sep @ join sep (y # ys)"

text \<open>\<^verbatim>\<open>enumerate(xs, n)\<close>\<close>

fun py_enumerate :: "int \<Rightarrow> 'a list \<Rightarrow> (int \<times> 'a) list" where
  "py_enumerate n [] = []"
| "py_enumerate n (x # xs) = (n, x) # py_enumerate (n + 1) xs"

subsection \<open>Operations on decoded values\<close>

text \<open>Truth value of a decoded value, as \<^verbatim>\<open>if value\<close> tests it.\<close>

fun truthy :: "json \<Rightarrow> bool" where
  "truthy JNull = False"
| "truthy (JBool b) = b"
| "truthy (JInt i) = (i \<noteq> 0)"
| "truthy (JFloat w) = (take_bit 63 w \<noteq> 0)"
| "truthy (JStr s) = (s \<noteq> [])"
| "truthy (JArr xs) = (xs \<noteq> [])"
| "truthy (JObj kvs) = (kvs \<noteq> [])"

text \<open>\<^verbatim>\<open>len(value)\<close>\<close>

fun py_len :: "json \<Rightarrow> py_error + int" where
  "py_len (JStr s) = Inr (int (length s))"
| "py_len (JArr xs) = Inr (int (length xs))"
| "py_len (JObj kvs) = Inr (int (length kvs))"
| "py_len v = Inl TypeError"

text \<open>\<^verbatim>\<open>value.strip()\<close>, \<^verbatim>\<open>value.lower()\<close>, \<^verbatim>\<open>value.split()\<close>: methods of \<^verbatim>\<open>str\<close> only.\<close>

fun strip_of :: "json \<Rightarrow> py_error + string" where
  "strip_of (JStr s) = Inr (py_strip s)"
| "strip_of v = Inl AttributeError"

fun lower_of :: "json \<Rightarrow> py_error + string" where
  "lower_of (JStr s) = Inr (py_lower s)"
| "lower_of v = Inl AttributeError"

fun split_of :: "json \<Rightarrow> py_error + string list" where
  "split_of (JStr s) = Inr (py_split s)"
| "split_of v = Inl AttributeError"

text \<open>A value inside an f-string: a \<^verbatim>\<open>str\<close> is itself, anything else goes through \<^verbatim>\<open>str()\<close>.\<close>

definition fmt :: "builtins \<Rightarrow> json \<Rightarrow> string" where
  "fmt bi v = (case v of JStr s \<Rightarrow> s | _ \<Rightarrow> str_of bi v)"

text \<open>\<^verbatim>\<open>isinstance(data, list)\<close>, \<^verbatim>\<open>isinstance(item, dict)\<close>\<close>

fun is_list :: "json \<Rightarrow> bool" where
  "is_list (JArr xs) = True"
| "is_list v = False"

fun is_dict :: "json \<Rightarrow> bool" where
  "is_dict (JObj kvs) = True"
| "is_dict v = False"

section \<open>The class \<^verbatim>\<open>SimpleLinter\<close>\<close>

record linter =
  errors :: "string list"
  warnings :: "string list"
  line_map :: "int \<rightharpoonup> int"

text \<open>\<^verbatim>\<open>__init__\<close>\<close>

definition new_linter :: linter where
  "new_linter = \<lparr>errors = [], warnings = [], line_map = Map.empty\<rparr>"

definition append_error :: "string \<Rightarrow> linter \<Rightarrow> linter" where
  "append_error m self = self\<lparr>errors := errors self @ [m]\<rparr>"

definition append_warning :: "string \<Rightarrow> linter \<Rightarrow> linter" where
  "append_warning m self = self\<lparr>warnings := warnings self @ [m]\<rparr>"

subsection \<open>\<^verbatim>\<open>_build_line_map\<close>\<close>

text \<open>One iteration of the loop over \<^verbatim>\<open>enumerate(lines, 1)\<close>, on \<^verbatim>\<open>current_item\<close> and the map.\<close>

definition line_step :: "int \<times> string \<Rightarrow> int \<times> (int \<rightharpoonup> int) \<Rightarrow> int \<times> (int \<rightharpoonup> int)" where
  "line_step nl st =
     (case nl of (line_num, line) \<Rightarrow>
      case st of (current_item, m) \<Rightarrow>
        if CHR ''{'' \<in> set line \<and> current_item = - 1 then (0, m(0 \<mapsto> line_num))
        else if CHR ''{'' \<in> set line \<and> current_item \<ge> 0
          then (current_item + 1, m(current_item + 1 \<mapsto> line_num))
        else if CHR ''}'' \<in> set line \<and> CHR '','' \<in> set line then (current_item, m)
        else (current_item, m))"

fun line_loop :: "(int \<times> string) list \<Rightarrow> int \<times> (int \<rightharpoonup> int) \<Rightarrow> int \<times> (int \<rightharpoonup> int)" where
  "line_loop [] st = st"
| "line_loop (nl # rest) st = line_loop rest (line_step nl st)"

definition build_line_map :: "linter \<Rightarrow> string \<Rightarrow> linter" where
  "build_line_map self content =
     (let lines = split_on CHR 0x0A content
      in self\<lparr>line_map := snd (line_loop (py_enumerate 1 lines) (- 1, line_map self))\<rparr>)"

subsection \<open>\<^verbatim>\<open>_get_line_info\<close>\<close>

definition get_line_info :: "linter \<Rightarrow> int \<Rightarrow> string" where
  "get_line_info self index =
     (case line_map self index of
        None \<Rightarrow> []
      | Some line_num \<Rightarrow> if line_num \<noteq> 0 then '' (line '' @ str_int line_num @ '')'' else [])"

subsection \<open>\<^verbatim>\<open>_check_structure\<close>\<close>

fun structure_loop :: "(int \<times> json) list \<Rightarrow> linter \<Rightarrow> linter" where
  "structure_loop [] self = self"
| "structure_loop ((i, item) # rest) self =
     structure_loop rest
       (if \<not> is_dict item
        then append_error (''Item '' @ str_int i @ '' should be an object'' @ get_line_info self i) self
        else self)"

definition check_structure :: "linter \<Rightarrow> json \<Rightarrow> linter" where
  "check_structure self data =
     (case data of
        JArr items \<Rightarrow>
          structure_loop (py_enumerate 0 items)
            (if length items = 0 then append_warning ''Array is empty'' self else self)
      | _ \<Rightarrow> append_error ''JSON should be an array'' self)"

subsection \<open>The validators of \<^verbatim>\<open>_check_specific_tag_values\<close>\<close>

definition valid_values :: "string list" where
  "valid_values = [''DCL1'', ''DCL2'', ''DCL3'', ''DCL4'']"

definition data_classification_msg :: "string \<Rightarrow> string \<Rightarrow> string" where
  "data_classification_msg v line_info =
     ''Invalid Data Classification '' @ [CHR 0x27] @ v @ [CHR 0x27] @
     '' (should be one of: '' @ join '', '' valid_values @ '')'' @ line_info"

definition validate_data_classification :: "builtins \<Rightarrow> linter \<Rightarrow> json \<Rightarrow> string \<Rightarrow> linter" where
  "validate_data_classification bi self val line_info =
     (if truthy val \<and> val \<notin> set (map JStr valid_values)
      then append_warning (data_classification_msg (fmt bi val) line_info) self
      else self)"

definition valid_prefixes :: "string list" where
  "valid_prefixes = [''gip'', ''eng'', ''ops'', ''fin'']"

definition too_short_msg :: "string \<Rightarrow> string \<Rightarrow> string" where
  "too_short_msg v line_info =
     ''Business Groups value '' @ [CHR 0x27] @ v @ [CHR 0x27] @
     '' is too short (minimum 2 characters)'' @ line_info"

definition prefix_msg :: "string \<Rightarrow> string \<Rightarrow> string" where
  "prefix_msg v line_info =
     ''Business Groups '' @ [CHR 0x27] @ v @ [CHR 0x27] @
     '' should start with one of: '' @ join '', '' valid_prefixes @ line_info"

definition validate_business_groups ::
  "builtins \<Rightarrow> linter \<Rightarrow> json \<Rightarrow> string \<Rightarrow> py_error + linter" where
  "validate_business_groups bi self val line_info =
     and_then
       (if truthy val
        then and_then (py_len val) (\<lambda>n.
               Inr (if n < 2 then append_warning (too_short_msg (fmt bi val) line_info) self
                    else self))
        else Inr self)
       (\<lambda>self1.
          if truthy val
          then and_then (lower_of val) (\<lambda>low.
                 Inr (if \<not> list_ex (\<lambda>prefix. startswith low prefix) valid_prefixes
                      then append_warning (prefix_msg (fmt bi val) line_info) self1
                      else self1))
          else Inr self1)"

definition owning_too_short_msg :: "string \<Rightarrow> string \<Rightarrow> string" where
  "owning_too_short_msg v line_info =
     ''Owning Business group '' @ [CHR 0x27] @ v @ [CHR 0x27] @
     '' is too short (minimum 5 characters)'' @ line_info"

definition capitalization_msg :: "string \<Rightarrow> string \<Rightarrow> string" where
  "capitalization_msg v line_info =
     ''Owning Business group '' @ [CHR 0x27] @ v @ [CHR 0x27] @
     '' should have proper capitalization'' @ line_info"

text \<open>\<^verbatim>\<open>word[0].isupper()\<close>; the words are filtered by \<^verbatim>\<open>if word\<close> before.\<close>

definition first_isupper :: "string \<Rightarrow> bool" where
  "first_isupper word = (case word of [] \<Rightarrow> False | c # cs \<Rightarrow> py_isupper c)"

definition validate_owning_business_group ::
  "builtins \<Rightarrow> linter \<Rightarrow> json \<Rightarrow> string \<Rightarrow> py_error + linter" where
  "validate_owning_business_group bi self val line_info =
     and_then
       (if truthy val
        then and_then (py_len val) (\<lambda>n.
               Inr (if n < 5 then append_warning (owning_too_short_msg (fmt bi val) line_info) self
                    else self))
        else Inr self)
       (\<lambda>self1.
          if truthy val
          then and_then (split_of val) (\<lambda>ws.
                 Inr (if \<not> list_ex first_isupper (filter (\<lambda>word. word \<noteq> []) ws)
                      then append_warning (capitalization_msg (fmt bi val) line_info) self1
                      else self1))
          else Inr self1)"

definition valid_environments :: "string list" where
  "valid_environments = [''dev'', ''development'', ''staging'', ''stage'', ''prod'', ''production'']"

definition environment_msg :: "string \<Rightarrow> string \<Rightarrow> string" where
  "environment_msg v line_info =
     ''Invalid Environment '' @ [CHR 0x27] @ v @ [CHR 0x27] @
     '' (should be one of: '' @ join '', '' valid_environments @ '')'' @ line_info"

definition validate_environment ::
  "builtins \<Rightarrow> linter \<Rightarrow> json \<Rightarrow> string \<Rightarrow> py_error + linter" where
  "validate_environment bi self val line_info =
     (if truthy val
      then and_then (lower_of val) (\<lambda>low.
             Inr (if low \<notin> set valid_environments
                  then append_warning (environment_msg (fmt bi val) line_info) self
                  else self))
      else Inr self)"

subsection \<open>\<^verbatim>\<open>_check_specific_tag_values\<close>\<close>

text \<open>\<^verbatim>\<open>item.get(key, default)\<close> on the items of a dict\<close>

definition dict_get :: "(string \<times> json) list \<Rightarrow> string \<Rightarrow> json \<Rightarrow> json" where
  "dict_get d key dflt = (case map_of d key of Some v \<Rightarrow> v | None \<Rightarrow> dflt)"

definition check_specific_tag_values ::
  "builtins \<Rightarrow> linter \<Rightarrow> json \<Rightarrow> int \<Rightarrow> string \<Rightarrow> py_error + linter" where
  "check_specific_tag_values bi self item index line_info =
     (case item of
        JObj d \<Rightarrow>
          (let tag_key = dict_get d ''tagKey'' (JStr []);
               val = dict_get d ''value'' (JStr [])
           in if tag_key = JStr ''Data Classification''
                then Inr (validate_data_classification bi self val line_info)
              else if tag_key = JStr ''Business Groups''
                then validate_business_groups bi self val line_info
              else if tag_key = JStr ''Owning Business group''
                then validate_owning_business_group bi self val line_info
              else if tag_key = JStr ''Environment''
                then validate_environment bi self val line_info
              else Inr self)
      | _ \<Rightarrow> Inl AttributeError)"

subsection \<open>\<^verbatim>\<open>_check_content\<close>\<close>

text \<open>\<^verbatim>\<open>key in item and not item[key].strip()\<close>\<close>

definition present_and_blank :: "(string \<times> json) list \<Rightarrow> string \<Rightarrow> py_error + bool" where
  "present_and_blank d key =
     (case map_of d key of
        None \<Rightarrow> Inr False
      | Some v \<Rightarrow> and_then (strip_of v) (\<lambda>s. Inr (s = [])))"

definition missing_tagkey_msg :: "int \<Rightarrow> string \<Rightarrow> string" where
  "missing_tagkey_msg i line_info =
     ''Missing '' @ [CHR 0x27] @ ''tagKey'' @ [CHR 0x27] @ '' at position '' @ str_int i @ line_info"

definition missing_value_msg :: "string \<Rightarrow> string \<Rightarrow> string" where
  "missing_value_msg label line_info =
     ''Missing '' @ [CHR 0x27] @ ''value'' @ [CHR 0x27] @ '' for '' @
     [CHR 0x27] @ label @ [CHR 0x27] @ line_info"

definition empty_tagkey_msg :: "int \<Rightarrow> string \<Rightarrow> string" where
  "empty_tagkey_msg i line_info =
     ''Empty '' @ [CHR 0x27] @ ''tagKey'' @ [CHR 0x27] @ '' at position '' @ str_int i @ line_info"

definition empty_value_msg :: "string \<Rightarrow> string \<Rightarrow> string" where
  "empty_value_msg label line_info =
     ''Empty '' @ [CHR 0x27] @ ''value'' @ [CHR 0x27] @ '' for '' @
     [CHR 0x27] @ label @ [CHR 0x27] @ line_info"

text \<open>The body of the loop over \<^verbatim>\<open>enumerate(data)\<close>.\<close>

definition check_item :: "builtins \<Rightarrow> int \<Rightarrow> json \<Rightarrow> linter \<Rightarrow> py_error + linter" where
  "check_item bi i item self =
     (case item of
        JObj d \<Rightarrow>
          (let tag_key = dict_get d ''tagKey'' (JStr (''Item '' @ str_int i));
               line_info = get_line_info self i;
               self1 = (if map_of d ''tagKey'' = None
                        then append_error (missing_tagkey_msg i line_info) self else self);
               self2 = (if map_of d ''value'' = None
                        then append_error (missing_value_msg (fmt bi tag_key) line_info) self1
                        else self1)
           in and_then (present_and_blank d ''tagKey'') (\<lambda>blank_key.
                let self3 = (if blank_key
                             then append_warning (empty_tagkey_msg i line_info) self2 else self2)
                in and_then (present_and_blank d ''value'') (\<lambda>blank_value.
                     let self4 = (if blank_value
                                  then append_warning (empty_value_msg (fmt bi tag_key) line_info) self3
                                  else self3)
                     in check_specific_tag_values bi self4 item i line_info)))
      | _ \<Rightarrow> Inr self)"

fun content_loop :: "builtins \<Rightarrow> (int \<times> json) list \<Rightarrow> linter \<Rightarrow> py_error + linter" where
  "content_loop bi [] self = Inr self"
| "content_loop bi ((i, item) # rest) self =
     and_then (check_item bi i item self) (content_loop bi rest)"

definition check_content :: "builtins \<Rightarrow> linter \<Rightarrow> json \<Rightarrow> py_error + linter" where
  "check_content bi self data =
     (case data of
        JArr items \<Rightarrow> content_loop bi (py_enumerate 0 items) self
      | _ \<Rightarrow> Inr self)"

subsection \<open>\<^verbatim>\<open>_print_results\<close> and \<^verbatim>\<open>lint_file\<close>\<close>

text \<open>
  The lines written by \<^verbatim>\<open>print\<close>, one constructor for each format string of the source
  with the values it interpolates: the file-not-found line, the invalid-JSON line
  (\<^verbatim>\<open>e.msg\<close>, \<^verbatim>\<open>e.lineno\<close>), the no-issues line, the two count headers and a bullet line.
\<close>

datatype out_line =
    File_Not_Found string
  | Invalid_JSON string int
  | No_Issues
  | Error_Count nat
  | Warning_Count nat
  | Bullet string

definition print_results :: "linter \<Rightarrow> out_line list" where
  "print_results self =
     (if errors self = [] \<and> warnings self = [] then [No_Issues]
      else (if errors self \<noteq> []
            then Error_Count (length (errors self)) # map Bullet (errors self) else []) @
           (if warnings self \<noteq> []
            then Warning_Count (length (warnings self)) # map Bullet (warnings self) else []))"

text \<open>What a call of \<^verbatim>\<open>lint_file\<close> that returns leaves behind.\<close>

record lint_result =
  final :: linter
  printed :: "out_line list"
  verdict :: bool

definition lint_file :: "builtins \<Rightarrow> filesystem \<Rightarrow> linter \<Rightarrow> string \<Rightarrow> py_error + lint_result" where
  "lint_file bi fs self filename =
     (let self0 = self\<lparr>errors := [], warnings := [], line_map := Map.empty\<rparr>
      in case fs filename of
           Inl FileNotFoundError \<Rightarrow>
             Inr \<lparr>final = self0, printed = [File_Not_Found filename], verdict = False\<rparr>
         | Inl OtherOSError \<Rightarrow> Inl OSError
         | Inr content \<Rightarrow>
             (case json_loads bi content of
                Inl e \<Rightarrow>
                  Inr \<lparr>final = self0, printed = [Invalid_JSON (msg e) (lineno e)], verdict = False\<rparr>
              | Inr data \<Rightarrow>
                  (let self1 = build_line_map self0 content;
                       self2 = check_structure self1 data
                   in and_then (check_content bi self2 data) (\<lambda>self3.
                        Inr \<lparr>final = self3, printed = print_results self3,
                             verdict = (errors self3 = [])\<rparr>))))"

subsection \<open>The line index as the specification words it\<close>

text \<open>
  The 1-based numbers of the lines of the text that contain an opening brace, in order:
  item \<open>i\<close> is to be mapped to the \<open>i\<close>-th of them.
\<close>

definition has_brace :: "int \<times> string \<Rightarrow> bool" where
  "has_brace nl = (CHR ''{'' \<in> set (snd nl))"

definition brace_lines :: "string \<Rightarrow> int list" where
  "brace_lines content = map fst (filter has_brace (py_enumerate 1 (split_on CHR 0x0A content)))"

subsection \<open>Concrete surroundings for running the linter\<close>

text \<open>
  A decoder given by a table from texts to the values they decode to (any other text is
  rejected with a \<^verbatim>\<open>JSONDecodeError\<close>), and a file system holding one file.
\<close>

definition decoder :: "(string \<times> json) list \<Rightarrow> builtins" where
  "decoder table =
     \<lparr>json_loads = (\<lambda>text. case map_of table text of
                               Some v \<Rightarrow> Inr v
                             | None \<Rightarrow> Inl \<lparr>msg = ''Expecting value'', lineno = 1\<rparr>),
      str_of = (\<lambda>v. [])\<rparr>"

definition one_file :: "string \<Rightarrow> string \<Rightarrow> filesystem" where
  "one_file name text = (\<lambda>f. if f = name then Inr text else Inl FileNotFoundError)"

section \<open>Properties\<close>

subsection \<open>Unfolding and evaluation\<close>

lemmas string_defs =
  str_int_def digits.simps digit_char_def py_isspace_def py_strip_def upper_letters_def
  lower_letters_def lower_char_def py_lower_def py_isupper_def startswith_def py_split_def

lemmas linter_defs =
  and_then_def fmt_def new_linter_def append_error_def append_warning_def
  build_line_map_def line_step_def get_line_info_def check_structure_def
  valid_values_def data_classification_msg_def validate_data_classification_def
  valid_prefixes_def too_short_msg_def prefix_msg_def validate_business_groups_def
  owning_too_short_msg_def capitalization_msg_def first_isupper_def
  validate_owning_business_group_def valid_environments_def environment_msg_def
  validate_environment_def dict_get_def check_specific_tag_values_def
  present_and_blank_def missing_tagkey_msg_def missing_value_msg_def
  empty_tagkey_msg_def empty_value_msg_def check_item_def check_content_def
  print_results_def lint_file_def

subsection \<open>The line index\<close>

lemma line_step_from: "- 1 \<le> cur \<Longrightarrow>
  line_step nl (cur, m) = (if has_brace nl then (cur + 1, m(cur + 1 \<mapsto> fst nl)) else (cur, m))"
  by (cases nl) (auto simp: line_step_def has_brace_def)

lemma line_loop_map: "- 1 \<le> cur \<Longrightarrow>
  snd (line_loop xs (cur, m)) i =
    (if cur < i \<and> i \<le> cur + int (length (filter has_brace xs))
     then Some (map fst (filter has_brace xs) ! nat (i - cur - 1)) else m i)"
proof (induction xs arbitrary: cur m)
  case Nil
  then show ?case by auto
next
  case (Cons x xs)
  show ?case
  proof (cases "has_brace x")
    case True
    have "snd (line_loop (x # xs) (cur, m)) i = snd (line_loop xs (cur + 1, m(cur + 1 \<mapsto> fst x))) i"
      using Cons.prems True by (simp add: line_step_from)
    also have "\<dots> = (if cur + 1 < i \<and> i \<le> cur + 1 + int (length (filter has_brace xs))
        then Some (map fst (filter has_brace xs) ! nat (i - (cur + 1) - 1)) else (m(cur + 1 \<mapsto> fst x)) i)"
      using Cons.prems by (intro Cons.IH) simp
    finally have step: "snd (line_loop (x # xs) (cur, m)) i =
        (if cur + 1 < i \<and> i \<le> cur + 1 + int (length (filter has_brace xs))
         then Some (map fst (filter has_brace xs) ! nat (i - (cur + 1) - 1))
         else (m(cur + 1 \<mapsto> fst x)) i)" .
    have idx: "cur + 1 < i \<Longrightarrow> nat (i - cur - 1) = Suc (nat (i - (cur + 1) - 1))"
      by linarith
    consider "i = cur + 1" | "cur + 1 < i" | "i < cur + 1" by linarith
    then show ?thesis
    proof cases
      case 1
      then show ?thesis using True step by simp
    next
      case 2
      then show ?thesis using True step idx by simp
    next
      case 3
      then show ?thesis using True step by simp
    qed
  next
    case False
    then show ?thesis using Cons by (simp add: line_step_from)
  qed
qed

lemma enumerate_fst_ge: "p \<in> set (py_enumerate n xs) \<Longrightarrow> n \<le> fst p"
  by (induction xs arbitrary: n) force+

lemma enumerate_increasing: "sorted_wrt (\<lambda>p q. fst p < fst q) (py_enumerate n xs)"
proof (induction xs arbitrary: n)
  case Nil
  show ?case by simp
next
  case (Cons x xs)
  have "\<forall>q \<in> set (py_enumerate (n + 1) xs). n < fst q"
    using enumerate_fst_ge [of _ "n + 1" xs] by force
  with Cons show ?case by simp
qed

lemma brace_lines_increasing: "sorted_wrt (<) (brace_lines content)"
  unfolding brace_lines_def
  by (simp add: sorted_wrt_map sorted_wrt_filter enumerate_increasing)

lemma brace_lines_positive: "n \<in> set (brace_lines content) \<Longrightarrow> 1 \<le> n"
  unfolding brace_lines_def using enumerate_fst_ge by fastforce

lemma build_line_map_lookup:
  "line_map (build_line_map (self\<lparr>line_map := Map.empty\<rparr>) content) i =
     (if 0 \<le> i \<and> i < int (length (brace_lines content))
      then Some (brace_lines content ! nat i) else None)"
  using line_loop_map [of "- 1" "py_enumerate 1 (split_on CHR 0x0A content)" Map.empty i]
  by (auto simp: build_line_map_def brace_lines_def Let_def)


lemma reset_is_new: "self\<lparr>errors := [], warnings := [], line_map := Map.empty\<rparr> = new_linter"
  by (cases self) (simp add: new_linter_def)

lemma get_line_info_built:
  "get_line_info (build_line_map (self\<lparr>line_map := Map.empty\<rparr>) content) i =
     (case line_map (build_line_map (self\<lparr>line_map := Map.empty\<rparr>) content) i of
        None \<Rightarrow> []
      | Some n \<Rightarrow> '' (line '' @ str_int n @ '')'')"
proof (cases "0 \<le> i \<and> i < int (length (brace_lines content))")
  case True
  then have "brace_lines content ! nat i \<in> set (brace_lines content)"
    by (intro nth_mem) linarith
  then have "brace_lines content ! nat i \<noteq> 0"
    using brace_lines_positive by fastforce
  with True show ?thesis
    by (simp add: get_line_info_def build_line_map_lookup)
next
  case False
  then show ?thesis
    by (simp add: get_line_info_def build_line_map_lookup)
qed

text \<open>
  C8. Started on an empty map, the builder maps index 0 to the number of the first line
  holding an opening brace and each further index to the number of the next such line, and
  records nothing else; the lookup of an index gives \<open>'' (line N)''\<close> when the index was
  recorded with line \<open>N\<close> and the empty string otherwise.
\<close>

theorem line_index_builder_and_lookup:
  "line_map (build_line_map (self\<lparr>line_map := Map.empty\<rparr>) content) i =
     (if 0 \<le> i \<and> i < int (length (brace_lines content))
      then Some (brace_lines content ! nat i) else None)
   \<and> get_line_info (build_line_map (self\<lparr>line_map := Map.empty\<rparr>) content) i =
     (case line_map (build_line_map (self\<lparr>line_map := Map.empty\<rparr>) content) i of
        None \<Rightarrow> []
      | Some n \<Rightarrow> '' (line '' @ str_int n @ '')'')"
  using build_line_map_lookup get_line_info_built by blast

theorem line_index_builder_and_lookup_witness:
  "line_map (build_line_map (new_linter\<lparr>line_map := Map.empty\<rparr>) ''[\<newline>{},\<newline>{}]'') 1 = Some 3
   \<and> get_line_info (build_line_map (new_linter\<lparr>line_map := Map.empty\<rparr>) ''[\<newline>{},\<newline>{}]'') 1 = '' (line 3)''
   \<and> get_line_info (build_line_map (new_linter\<lparr>line_map := Map.empty\<rparr>) ''[\<newline>{},\<newline>{}]'') 2 = []"
  using line_index_builder_and_lookup [of new_linter "''[\<newline>{},\<newline>{}]''" 1]
    line_index_builder_and_lookup [of new_linter "''[\<newline>{},\<newline>{}]''" 2]
  by (simp add: brace_lines_def has_brace_def str_int_def digits.simps digit_char_def)

text \<open>
  C9. For every text the keys of the built map are exactly \<open>0, 1, ..., k - 1\<close> for the
  number \<open>k\<close> of lines holding an opening brace (no key when there is none), and the line
  recorded for index \<open>i + 1\<close> is later than the one recorded for index \<open>i\<close>.
\<close>

theorem line_map_keys_and_order:
  "dom (line_map (build_line_map (self\<lparr>line_map := Map.empty\<rparr>) content)) =
     {0 ..< int (length (brace_lines content))}
   \<and> (\<forall>i a b. line_map (build_line_map (self\<lparr>line_map := Map.empty\<rparr>) content) i = Some a
          \<and> line_map (build_line_map (self\<lparr>line_map := Map.empty\<rparr>) content) (i + 1) = Some b
        \<longrightarrow> a < b)"
proof (intro conjI allI impI)
  show "dom (line_map (build_line_map (self\<lparr>line_map := Map.empty\<rparr>) content)) =
     {0 ..< int (length (brace_lines content))}"
    by (auto simp: build_line_map_lookup dom_def)
next
  fix i a b
  assume h: "line_map (build_line_map (self\<lparr>line_map := Map.empty\<rparr>) content) i = Some a
          \<and> line_map (build_line_map (self\<lparr>line_map := Map.empty\<rparr>) content) (i + 1) = Some b"
  then have r: "0 \<le> i" "i + 1 < int (length (brace_lines content))"
    and a: "a = brace_lines content ! nat i" and b: "b = brace_lines content ! nat (i + 1)"
    by (auto simp: build_line_map_lookup split: if_splits)
  have "brace_lines content ! nat i < brace_lines content ! nat (i + 1)"
    using r by (intro sorted_wrt_nth_less [OF brace_lines_increasing]) linarith+
  then show "a < b" using a b by simp
qed

theorem line_map_keys_and_order_witness:
  "line_map (build_line_map (new_linter\<lparr>line_map := Map.empty\<rparr>) ''[\<newline>{},\<newline>{}]'') 0 = Some 2
   \<and> line_map (build_line_map (new_linter\<lparr>line_map := Map.empty\<rparr>) ''[\<newline>{},\<newline>{}]'') (0 + 1) = Some 3
   \<and> (2::int) < 3
   \<and> dom (line_map (build_line_map (new_linter\<lparr>line_map := Map.empty\<rparr>) ''[\<newline>{},\<newline>{}]'')) = {0 ..< 2}"
proof -
  let ?m = "line_map (build_line_map (new_linter\<lparr>line_map := Map.empty\<rparr>) ''[\<newline>{},\<newline>{}]'')"
  have len: "int (length (brace_lines ''[\<newline>{},\<newline>{}]'')) = 2"
    by (simp add: brace_lines_def has_brace_def)
  have a: "?m 0 = Some 2" and b: "?m (0 + 1) = Some 3"
    by (simp_all add: build_line_map_def line_step_def)
  from line_map_keys_and_order [of new_linter "''[\<newline>{},\<newline>{}]''"]
  have d: "dom ?m = {0 ..< 2}" and o: "?m 0 = Some 2 \<and> ?m (0 + 1) = Some 3 \<longrightarrow> (2::int) < 3"
    using len by auto
  from a b d o show ?thesis by blast
qed

subsection \<open>A whole run\<close>

lemma lint_file_decoded:
  assumes "fs filename = Inr content" and "json_loads bi content = Inr data"
  shows "lint_file bi fs self filename =
     and_then (check_content bi (check_structure (build_line_map new_linter content) data) data)
       (\<lambda>self3. Inr \<lparr>final = self3, printed = print_results self3,
                      verdict = (errors self3 = [])\<rparr>)"
  using assms by (simp add: lint_file_def reset_is_new Let_def)

lemma build_line_map_lists:
  "errors (build_line_map self content) = errors self"
  "warnings (build_line_map self content) = warnings self"
  by (simp_all add: build_line_map_def Let_def)

lemma check_structure_one_object:
  "check_structure self (JArr [JObj d]) = self"
  by (simp add: check_structure_def)

lemma check_content_one:
  "check_content bi self (JArr [item]) = check_item bi 0 item self"
  by (simp add: check_content_def and_then_def split: sum.splits)

lemma get_line_info_lists [simp]:
  "get_line_info (append_error m self) i = get_line_info self i"
  "get_line_info (append_warning m self) i = get_line_info self i"
  by (simp_all add: get_line_info_def append_error_def append_warning_def)

text \<open>
  C3. When the decoded top-level value is not an array, the run records exactly the one
  error \<open>''JSON should be an array''\<close>, no warning and no other finding, prints the error
  count and that error, and its verdict is failure.
\<close>

theorem not_an_array:
  assumes "fs filename = Inr content" and "json_loads bi content = Inr data"
    and "\<not> is_list data"
  shows "\<exists>r. lint_file bi fs self filename = Inr r
           \<and> errors (final r) = [''JSON should be an array'']
           \<and> warnings (final r) = []
           \<and> printed r = [Error_Count 1, Bullet ''JSON should be an array'']
           \<and> verdict r = False"
proof -
  from assms(3) have s: "check_structure (build_line_map new_linter content) data =
      append_error ''JSON should be an array'' (build_line_map new_linter content)"
    by (cases data) (simp_all add: check_structure_def)
  from assms(3) have c: "\<And>s. check_content bi s data = Inr s"
    by (cases data) (simp_all add: check_content_def)
  have "lint_file bi fs self filename =
      and_then (check_content bi (check_structure (build_line_map new_linter content) data) data)
        (\<lambda>self3. Inr \<lparr>final = self3, printed = print_results self3,
                       verdict = (errors self3 = [])\<rparr>)"
    using assms(1,2) by (rule lint_file_decoded)
  then show ?thesis
    unfolding s c
    by (simp add: and_then_def append_error_def print_results_def build_line_map_lists new_linter_def)
qed

theorem not_an_array_witness:
  "one_file ''tags.json'' ''{\"a\":1}'' ''tags.json'' = Inr ''{\"a\":1}''
   \<and> json_loads (decoder [(''{\"a\":1}'', JObj [(''a'', JInt 1)])]) ''{\"a\":1}'' = Inr (JObj [(''a'', JInt 1)])
   \<and> \<not> is_list (JObj [(''a'', JInt 1)])
   \<and> (\<exists>r. lint_file (decoder [(''{\"a\":1}'', JObj [(''a'', JInt 1)])]) (one_file ''tags.json'' ''{\"a\":1}'') new_linter ''tags.json'' = Inr r
           \<and> errors (final r) = [''JSON should be an array'']
           \<and> warnings (final r) = []
           \<and> printed r = [Error_Count 1, Bullet ''JSON should be an array'']
           \<and> verdict r = False)"
proof -
  have f: "one_file ''tags.json'' ''{\"a\":1}'' ''tags.json'' = Inr ''{\"a\":1}''"
    by (simp add: one_file_def)
  have d: "json_loads (decoder [(''{\"a\":1}'', JObj [(''a'', JInt 1)])]) ''{\"a\":1}'' = Inr (JObj [(''a'', JInt 1)])"
    by (simp add: decoder_def)
  have n: "\<not> is_list (JObj [(''a'', JInt 1)])" by simp
  from not_an_array [of "one_file ''tags.json'' ''{\"a\":1}''" "''tags.json''" "''{\"a\":1}''"
      "decoder [(''{\"a\":1}'', JObj [(''a'', JInt 1)])]" "JObj [(''a'', JInt 1)]" new_linter] f d n
  show ?thesis by blast
qed

text \<open>
  C4. When the decoder rejects the text of the file, the run stops before any check: it
  prints the one invalid-JSON line with the decoder's reason and line number, the error
  list, the warning list and the line index are empty, and the verdict is failure.
\<close>

theorem invalid_json_aborts:
  assumes "fs filename = Inr content" and "json_loads bi content = Inl e"
  shows "lint_file bi fs self filename =
           Inr \<lparr>final = \<lparr>errors = [], warnings = [], line_map = Map.empty\<rparr>,
                printed = [Invalid_JSON (msg e) (lineno e)], verdict = False\<rparr>"
  using assms by (simp add: lint_file_def reset_is_new Let_def new_linter_def)

theorem invalid_json_aborts_witness:
  "one_file ''tags.json'' ''[1,]'' ''tags.json'' = Inr ''[1,]''
   \<and> json_loads (decoder []) ''[1,]'' = Inl \<lparr>msg = ''Expecting value'', lineno = 1\<rparr>
   \<and> lint_file (decoder []) (one_file ''tags.json'' ''[1,]'') new_linter ''tags.json'' =
           Inr \<lparr>final = \<lparr>errors = [], warnings = [], line_map = Map.empty\<rparr>,
                printed = [Invalid_JSON ''Expecting value'' 1], verdict = False\<rparr>"
proof -
  have f: "one_file ''tags.json'' ''[1,]'' ''tags.json'' = Inr ''[1,]''"
    by (simp add: one_file_def)
  have d: "json_loads (decoder []) ''[1,]'' = Inl \<lparr>msg = ''Expecting value'', lineno = 1\<rparr>"
    by (simp add: decoder_def)
  from invalid_json_aborts [of "one_file ''tags.json'' ''[1,]''" "''tags.json''" "''[1,]''"
      "decoder []" "\<lparr>msg = ''Expecting value'', lineno = 1\<rparr>" new_linter] f d
  show ?thesis by simp
qed

text \<open>
  C6. The result of \<open>lint_file\<close> does not depend on the state of the instance it is called
  on, since the error list, the warning list and the line index are cleared first; so a
  second run on the instance left by a first run gives the same lists, output and verdict.
\<close>

theorem lint_file_idempotent:
  "lint_file bi fs s1 filename = lint_file bi fs s2 filename
   \<and> (lint_file bi fs s1 filename = Inr r \<longrightarrow> lint_file bi fs (final r) filename = Inr r)"
proof -
  have "\<And>s. lint_file bi fs s filename = lint_file bi fs new_linter filename"
    by (simp add: lint_file_def reset_is_new)
  then show ?thesis by metis
qed

theorem lint_file_idempotent_witness:
  "lint_file (decoder [(''{\"a\":1}'', JObj [(''a'', JInt 1)])]) (one_file ''tags.json'' ''{\"a\":1}'')
      new_linter ''tags.json'' =
     Inr \<lparr>final = \<lparr>errors = [''JSON should be an array''], warnings = [], line_map = [0 \<mapsto> 1]\<rparr>,
          printed = [Error_Count 1, Bullet ''JSON should be an array''], verdict = False\<rparr>
   \<and> lint_file (decoder [(''{\"a\":1}'', JObj [(''a'', JInt 1)])]) (one_file ''tags.json'' ''{\"a\":1}'')
      \<lparr>errors = [''JSON should be an array''], warnings = [], line_map = [0 \<mapsto> 1]\<rparr> ''tags.json'' =
     Inr \<lparr>final = \<lparr>errors = [''JSON should be an array''], warnings = [], line_map = [0 \<mapsto> 1]\<rparr>,
          printed = [Error_Count 1, Bullet ''JSON should be an array''], verdict = False\<rparr>"
proof -
  let ?r = "\<lparr>final = \<lparr>errors = [''JSON should be an array''], warnings = [], line_map = [0 \<mapsto> (1::int)]\<rparr>,
          printed = [Error_Count 1, Bullet ''JSON should be an array''], verdict = False\<rparr>"
  have run: "lint_file (decoder [(''{\"a\":1}'', JObj [(''a'', JInt 1)])]) (one_file ''tags.json'' ''{\"a\":1}'')
      new_linter ''tags.json'' = Inr ?r"
    by (simp add: linter_defs decoder_def one_file_def)
  from lint_file_idempotent [of "decoder [(''{\"a\":1}'', JObj [(''a'', JInt 1)])]"
      "one_file ''tags.json'' ''{\"a\":1}''" new_linter "''tags.json''" new_linter ?r] run
  show ?thesis by simp
qed

subsection \<open>The tag validators\<close>

text \<open>
  C10. For an item whose \<open>tagKey\<close> is \<open>''Environment''\<close> and whose \<open>value\<close> is absent or the
  empty string, the dispatch to the Environment validator leaves the linter unchanged: no
  warning is recorded.
\<close>

theorem environment_empty_value_skipped:
  assumes "map_of d ''tagKey'' = Some (JStr ''Environment'')"
    and "map_of d ''value'' = None \<or> map_of d ''value'' = Some (JStr [])"
  shows "check_specific_tag_values bi self (JObj d) i line_info = Inr self"
  using assms by (auto simp: check_specific_tag_values_def dict_get_def validate_environment_def)

theorem environment_empty_value_skipped_witness:
  "map_of [(''tagKey'', JStr ''Environment''), (''value'', JStr [])] ''tagKey'' = Some (JStr ''Environment'')
   \<and> map_of [(''tagKey'', JStr ''Environment''), (''value'', JStr [])] ''value'' = Some (JStr [])
   \<and> map_of [(''tagKey'', JStr ''Environment'')] ''tagKey'' = Some (JStr ''Environment'')
   \<and> map_of [(''tagKey'', JStr ''Environment'')] ''value'' = None
   \<and> check_specific_tag_values (decoder []) new_linter
        (JObj [(''tagKey'', JStr ''Environment''), (''value'', JStr [])]) 0 [] = Inr new_linter
   \<and> check_specific_tag_values (decoder []) new_linter
        (JObj [(''tagKey'', JStr ''Environment'')]) 0 [] = Inr new_linter"
  using environment_empty_value_skipped [of "[(''tagKey'', JStr ''Environment''), (''value'', JStr [])]" "decoder []" new_linter 0 "[]"]
    environment_empty_value_skipped [of "[(''tagKey'', JStr ''Environment'')]" "decoder []" new_linter 0 "[]"]
  by simp

text \<open>
  C5. For an item whose \<open>tagKey\<close> is \<open>''Environment''\<close> and whose \<open>value\<close> is a non-empty
  string, a warning is recorded exactly when the lower-cased value is not one of dev,
  development, staging, stage, prod, production. A file decoding to the one item with value
  \<open>''Prod''\<close> gives no error and no warning; with value \<open>''qa''\<close> it gives no error and
  the one warning that names qa and lists the allowed values.
\<close>

theorem environment_rule:
  "(map_of d ''tagKey'' = Some (JStr ''Environment'') \<and> map_of d ''value'' = Some (JStr v) \<and> v \<noteq> []
      \<longrightarrow> check_specific_tag_values bi self (JObj d) i line_info =
            Inr (if py_lower v \<in> {''dev'', ''development'', ''staging'', ''stage'', ''prod'', ''production''}
                 then self
                 else append_warning
                   (''Invalid Environment '' @ [CHR 0x27] @ v @ [CHR 0x27] @
                    '' (should be one of: dev, development, staging, stage, prod, production)'' @
                    line_info) self))
   \<and> (fs filename = Inr content
        \<and> json_loads bi content = Inr (JArr [JObj [(''tagKey'', JStr ''Environment''), (''value'', JStr ''Prod'')]])
      \<longrightarrow> (\<exists>r. lint_file bi fs prev filename = Inr r \<and> errors (final r) = []
                \<and> warnings (final r) = [] \<and> verdict r))
   \<and> (fs filename = Inr content
        \<and> json_loads bi content = Inr (JArr [JObj [(''tagKey'', JStr ''Environment''), (''value'', JStr ''qa'')]])
      \<longrightarrow> (\<exists>r. lint_file bi fs prev filename = Inr r \<and> errors (final r) = []
                \<and> warnings (final r) =
                    [''Invalid Environment 'qa' (should be one of: dev, development, staging, stage, prod, production)'' @
                     get_line_info (build_line_map new_linter content) 0]
                \<and> verdict r))"
proof (intro conjI impI)
  assume "map_of d ''tagKey'' = Some (JStr ''Environment'') \<and> map_of d ''value'' = Some (JStr v) \<and> v \<noteq> []"
  then show "check_specific_tag_values bi self (JObj d) i line_info =
            Inr (if py_lower v \<in> {''dev'', ''development'', ''staging'', ''stage'', ''prod'', ''production''}
                 then self
                 else append_warning
                   (''Invalid Environment '' @ [CHR 0x27] @ v @ [CHR 0x27] @
                    '' (should be one of: dev, development, staging, stage, prod, production)'' @
                    line_info) self)"
    by (simp add: check_specific_tag_values_def dict_get_def validate_environment_def and_then_def
        fmt_def environment_msg_def valid_environments_def)
next
  assume h: "fs filename = Inr content
        \<and> json_loads bi content = Inr (JArr [JObj [(''tagKey'', JStr ''Environment''), (''value'', JStr ''Prod'')]])"
  have "lint_file bi fs prev filename =
      and_then (check_content bi (check_structure (build_line_map new_linter content)
          (JArr [JObj [(''tagKey'', JStr ''Environment''), (''value'', JStr ''Prod'')]]))
          (JArr [JObj [(''tagKey'', JStr ''Environment''), (''value'', JStr ''Prod'')]]))
        (\<lambda>self3. Inr \<lparr>final = self3, printed = print_results self3,
                       verdict = (errors self3 = [])\<rparr>)"
    using h by (intro lint_file_decoded) simp_all
  then show "\<exists>r. lint_file bi fs prev filename = Inr r \<and> errors (final r) = []
                \<and> warnings (final r) = [] \<and> verdict r"
    by (simp add: check_structure_one_object check_content_one check_item_def
        check_specific_tag_values_def dict_get_def validate_environment_def and_then_def
        present_and_blank_def valid_environments_def build_line_map_lists new_linter_def
        py_strip_def py_isspace_def py_lower_def lower_char_def upper_letters_def
        lower_letters_def Let_def)
next
  assume h: "fs filename = Inr content
        \<and> json_loads bi content = Inr (JArr [JObj [(''tagKey'', JStr ''Environment''), (''value'', JStr ''qa'')]])"
  have "lint_file bi fs prev filename =
      and_then (check_content bi (check_structure (build_line_map new_linter content)
          (JArr [JObj [(''tagKey'', JStr ''Environment''), (''value'', JStr ''qa'')]]))
          (JArr [JObj [(''tagKey'', JStr ''Environment''), (''value'', JStr ''qa'')]]))
        (\<lambda>self3. Inr \<lparr>final = self3, printed = print_results self3,
                       verdict = (errors self3 = [])\<rparr>)"
    using h by (intro lint_file_decoded) simp_all
  then show "\<exists>r. lint_file bi fs prev filename = Inr r \<and> errors (final r) = []
                \<and> warnings (final r) =
                    [''Invalid Environment 'qa' (should be one of: dev, development, staging, stage, prod, production)'' @
                     get_line_info (build_line_map new_linter content) 0]
                \<and> verdict r"
    by (simp add: check_structure_one_object check_content_one check_item_def
        check_specific_tag_values_def dict_get_def validate_environment_def and_then_def
        present_and_blank_def valid_environments_def build_line_map_lists new_linter_def
        py_strip_def py_isspace_def py_lower_def lower_char_def upper_letters_def
        lower_letters_def Let_def append_warning_def fmt_def environment_msg_def)
qed

theorem environment_rule_witness:
  "map_of [(''tagKey'', JStr ''Environment''), (''value'', JStr ''QA'')] ''tagKey'' = Some (JStr ''Environment'')
   \<and> map_of [(''tagKey'', JStr ''Environment''), (''value'', JStr ''QA'')] ''value'' = Some (JStr ''QA'')
   \<and> ''QA'' \<noteq> []
   \<and> check_specific_tag_values (decoder []) new_linter
        (JObj [(''tagKey'', JStr ''Environment''), (''value'', JStr ''QA'')]) 0 '' (line 1)'' =
      Inr (append_warning
        ''Invalid Environment 'QA' (should be one of: dev, development, staging, stage, prod, production) (line 1)''
        new_linter)
   \<and> one_file ''tags.json'' ''[{\"tagKey\":\"Environment\",\"value\":\"Prod\"}]'' ''tags.json'' =
        Inr ''[{\"tagKey\":\"Environment\",\"value\":\"Prod\"}]''
   \<and> json_loads (decoder [(''[{\"tagKey\":\"Environment\",\"value\":\"Prod\"}]'',
          JArr [JObj [(''tagKey'', JStr ''Environment''), (''value'', JStr ''Prod'')]])])
        ''[{\"tagKey\":\"Environment\",\"value\":\"Prod\"}]'' =
      Inr (JArr [JObj [(''tagKey'', JStr ''Environment''), (''value'', JStr ''Prod'')]])
   \<and> (\<exists>r. lint_file (decoder [(''[{\"tagKey\":\"Environment\",\"value\":\"Prod\"}]'',
                  JArr [JObj [(''tagKey'', JStr ''Environment''), (''value'', JStr ''Prod'')]])])
              (one_file ''tags.json'' ''[{\"tagKey\":\"Environment\",\"value\":\"Prod\"}]'')
              new_linter ''tags.json'' = Inr r
            \<and> errors (final r) = [] \<and> warnings (final r) = [] \<and> verdict r)
   \<and> one_file ''tags.json'' ''[{\"tagKey\":\"Environment\",\"value\":\"qa\"}]'' ''tags.json'' =
        Inr ''[{\"tagKey\":\"Environment\",\"value\":\"qa\"}]''
   \<and> json_loads (decoder [(''[{\"tagKey\":\"Environment\",\"value\":\"qa\"}]'',
          JArr [JObj [(''tagKey'', JStr ''Environment''), (''value'', JStr ''qa'')]])])
        ''[{\"tagKey\":\"Environment\",\"value\":\"qa\"}]'' =
      Inr (JArr [JObj [(''tagKey'', JStr ''Environment''), (''value'', JStr ''qa'')]])
   \<and> (\<exists>r. lint_file (decoder [(''[{\"tagKey\":\"Environment\",\"value\":\"qa\"}]'',
                  JArr [JObj [(''tagKey'', JStr ''Environment''), (''value'', JStr ''qa'')]])])
              (one_file ''tags.json'' ''[{\"tagKey\":\"Environment\",\"value\":\"qa\"}]'')
              new_linter ''tags.json'' = Inr r
            \<and> errors (final r) = []
            \<and> warnings (final r) =
                [''Invalid Environment 'qa' (should be one of: dev, development, staging, stage, prod, production) (line 1)'']
            \<and> verdict r)"
proof -
  let ?dq = "[(''tagKey'', JStr ''Environment''), (''value'', JStr ''QA'')]"
  let ?tp = "''[{\"tagKey\":\"Environment\",\"value\":\"Prod\"}]''"
  let ?vp = "JArr [JObj [(''tagKey'', JStr ''Environment''), (''value'', JStr ''Prod'')]]"
  let ?tq = "''[{\"tagKey\":\"Environment\",\"value\":\"qa\"}]''"
  let ?vq = "JArr [JObj [(''tagKey'', JStr ''Environment''), (''value'', JStr ''qa'')]]"
  have h1: "map_of ?dq ''tagKey'' = Some (JStr ''Environment'') \<and> map_of ?dq ''value'' = Some (JStr ''QA'')
      \<and> ''QA'' \<noteq> []" by simp
  have low: "py_lower ''QA'' = ''qa''"
    by (simp add: string_defs)
  have fp: "one_file ''tags.json'' ?tp ''tags.json'' = Inr ?tp" by (simp add: one_file_def)
  have lp: "json_loads (decoder [(?tp, ?vp)]) ?tp = Inr ?vp" by (simp add: decoder_def)
  have fq: "one_file ''tags.json'' ?tq ''tags.json'' = Inr ?tq" by (simp add: one_file_def)
  have lq: "json_loads (decoder [(?tq, ?vq)]) ?tq = Inr ?vq" by (simp add: decoder_def)
  have li: "get_line_info (build_line_map new_linter ?tq) 0 = '' (line 1)''"
    by (simp add: linter_defs string_defs)
  have c1: "check_specific_tag_values (decoder []) new_linter (JObj ?dq) 0 '' (line 1)'' =
      Inr (append_warning
        ''Invalid Environment 'QA' (should be one of: dev, development, staging, stage, prod, production) (line 1)''
        new_linter)"
    using environment_rule [where d = ?dq and v = "''QA''" and bi = "decoder []"
        and self = new_linter and i = 0 and line_info = "'' (line 1)''"] h1 low
    by simp
  have c2: "\<exists>r. lint_file (decoder [(?tp, ?vp)]) (one_file ''tags.json'' ?tp) new_linter ''tags.json'' = Inr r
            \<and> errors (final r) = [] \<and> warnings (final r) = [] \<and> verdict r"
    using environment_rule [where fs = "one_file ''tags.json'' ?tp" and filename = "''tags.json''"
        and content = ?tp and bi = "decoder [(?tp, ?vp)]" and prev = new_linter] fp lp
    by blast
  have c3: "\<exists>r. lint_file (decoder [(?tq, ?vq)]) (one_file ''tags.json'' ?tq) new_linter ''tags.json'' = Inr r
            \<and> errors (final r) = []
            \<and> warnings (final r) =
                [''Invalid Environment 'qa' (should be one of: dev, development, staging, stage, prod, production) (line 1)'']
            \<and> verdict r"
    using environment_rule [where fs = "one_file ''tags.json'' ?tq" and filename = "''tags.json''"
        and content = ?tq and bi = "decoder [(?tq, ?vq)]" and prev = new_linter] fq lq li
    by simp
  from h1 c1 fp lp c2 fq lq c3 show ?thesis by blast
qed

text \<open>
  C2, as amended. For an item whose \<open>tagKey\<close> is \<open>''Business Groups''\<close> and whose \<open>value\<close>
  is a non-empty string, the too-short warning is among the warnings appended exactly
  when the length of the value, surrounding white space included, is less than 2.
\<close>

theorem business_groups_untrimmed_length:
  assumes "map_of d ''tagKey'' = Some (JStr ''Business Groups'')"
    and "map_of d ''value'' = Some (JStr v)" and "v \<noteq> []"
  shows "\<exists>new. check_specific_tag_values bi self (JObj d) i line_info =
                 Inr (self\<lparr>warnings := warnings self @ new\<rparr>)
           \<and> (too_short_msg v line_info \<in> set new \<longleftrightarrow> length v < 2)"
proof -
  have ne: "too_short_msg v line_info \<noteq> prefix_msg v line_info"
    by (simp add: too_short_msg_def prefix_msg_def)
  let ?a = "if length v < 2 then [too_short_msg v line_info] else []"
  let ?b = "if \<not> list_ex (\<lambda>prefix. startswith (py_lower v) prefix) valid_prefixes
            then [prefix_msg v line_info] else []"
  have "check_specific_tag_values bi self (JObj d) i line_info =
          Inr (self\<lparr>warnings := warnings self @ (?a @ ?b)\<rparr>)"
    using assms
    by (simp add: check_specific_tag_values_def dict_get_def validate_business_groups_def
        and_then_def fmt_def append_warning_def)
  moreover have "too_short_msg v line_info \<in> set (?a @ ?b) \<longleftrightarrow> length v < 2"
    using ne by simp
  ultimately show ?thesis by blast
qed

theorem business_groups_untrimmed_length_witness:
  "map_of [(''tagKey'', JStr ''Business Groups''), (''value'', JStr ''g'')] ''tagKey'' = Some (JStr ''Business Groups'')
   \<and> map_of [(''tagKey'', JStr ''Business Groups''), (''value'', JStr ''g'')] ''value'' = Some (JStr ''g'')
   \<and> ''g'' \<noteq> []
   \<and> (\<exists>new. check_specific_tag_values (decoder []) new_linter
                 (JObj [(''tagKey'', JStr ''Business Groups''), (''value'', JStr ''g'')]) 0 [] =
                 Inr (new_linter\<lparr>warnings := warnings new_linter @ new\<rparr>)
           \<and> (too_short_msg ''g'' [] \<in> set new \<longleftrightarrow> length ''g'' < 2))"
  using business_groups_untrimmed_length [of "[(''tagKey'', JStr ''Business Groups''), (''value'', JStr ''g'')]"
      "''g''" "decoder []" new_linter 0 "[]"]
  by simp

text \<open>
  The value \<open>'' a''\<close> is not empty and its trimmed length is 1, yet the run records only
  the prefix warning: the too-short check counts the untrimmed length, which is 2.
\<close>

theorem business_groups_trimmed_counterexample:
  "lint_file
     (decoder [(''[{\"tagKey\":\"Business Groups\",\"value\":\" a\"}]'',
                JArr [JObj [(''tagKey'', JStr ''Business Groups''), (''value'', JStr '' a'')]])])
     (one_file ''tags.json'' ''[{\"tagKey\":\"Business Groups\",\"value\":\" a\"}]'')
     new_linter ''tags.json'' =
   Inr \<lparr>final = \<lparr>errors = [],
                   warnings = [''Business Groups ' a' should start with one of: gip, eng, ops, fin (line 1)''],
                   line_map = [0 \<mapsto> 1]\<rparr>,
        printed = [Warning_Count 1,
                   Bullet ''Business Groups ' a' should start with one of: gip, eng, ops, fin (line 1)''],
        verdict = True\<rparr>
   \<and> '' a'' \<noteq> [] \<and> length (py_strip '' a'') < 2
   \<and> too_short_msg '' a'' '' (line 1)'' \<notin>
       set [''Business Groups ' a' should start with one of: gip, eng, ops, fin (line 1)'']"
  by (simp add: linter_defs string_defs decoder_def one_file_def)

subsection \<open>Fields of an item\<close>

text \<open>
  C7, as amended. For a file decoding to \<open>[{"value": "x"}]\<close> the run returns with exactly
  one error, \<open>Missing 'tagKey' at position 0\<close> followed by the line suffix of index 0, no
  \<open>Missing 'value'\<close> error and no warning, and its verdict is failure.
\<close>

theorem missing_tagkey_with_line_suffix:
  assumes "fs filename = Inr content"
    and "json_loads bi content = Inr (JArr [JObj [(''value'', JStr ''x'')]])"
  shows "\<exists>r. lint_file bi fs self filename = Inr r
           \<and> errors (final r) =
               [''Missing 'tagKey' at position 0'' @ get_line_info (build_line_map new_linter content) 0]
           \<and> warnings (final r) = []
           \<and> verdict r = False"
proof -
  have "lint_file bi fs self filename =
      and_then (check_content bi (check_structure (build_line_map new_linter content)
          (JArr [JObj [(''value'', JStr ''x'')]])) (JArr [JObj [(''value'', JStr ''x'')]]))
        (\<lambda>self3. Inr \<lparr>final = self3, printed = print_results self3,
                       verdict = (errors self3 = [])\<rparr>)"
    using assms by (rule lint_file_decoded)
  then show ?thesis
    by (simp add: check_structure_one_object check_content_one check_item_def
        check_specific_tag_values_def dict_get_def and_then_def
        present_and_blank_def build_line_map_lists new_linter_def
        py_strip_def py_isspace_def Let_def append_error_def missing_tagkey_msg_def
        str_int_def digits.simps digit_char_def)
qed

theorem missing_tagkey_with_line_suffix_witness:
  "one_file ''tags.json'' ''[{\"value\":\"x\"}]'' ''tags.json'' = Inr ''[{\"value\":\"x\"}]''
   \<and> json_loads (decoder [(''[{\"value\":\"x\"}]'', JArr [JObj [(''value'', JStr ''x'')]])])
         ''[{\"value\":\"x\"}]'' = Inr (JArr [JObj [(''value'', JStr ''x'')]])
   \<and> (\<exists>r. lint_file (decoder [(''[{\"value\":\"x\"}]'', JArr [JObj [(''value'', JStr ''x'')]])])
              (one_file ''tags.json'' ''[{\"value\":\"x\"}]'') new_linter ''tags.json'' = Inr r
           \<and> errors (final r) = [''Missing 'tagKey' at position 0 (line 1)'']
           \<and> warnings (final r) = []
           \<and> verdict r = False)"
proof -
  have f: "one_file ''tags.json'' ''[{\"value\":\"x\"}]'' ''tags.json'' = Inr ''[{\"value\":\"x\"}]''"
    by (simp add: one_file_def)
  have d: "json_loads (decoder [(''[{\"value\":\"x\"}]'', JArr [JObj [(''value'', JStr ''x'')]])])
         ''[{\"value\":\"x\"}]'' = Inr (JArr [JObj [(''value'', JStr ''x'')]])"
    by (simp add: decoder_def)
  have l: "get_line_info (build_line_map new_linter ''[{\"value\":\"x\"}]'') 0 = '' (line 1)''"
    by (simp add: linter_defs string_defs)
  from missing_tagkey_with_line_suffix [of "one_file ''tags.json'' ''[{\"value\":\"x\"}]''"
      "''tags.json''" "''[{\"value\":\"x\"}]''"
      "decoder [(''[{\"value\":\"x\"}]'', JArr [JObj [(''value'', JStr ''x'')]])]" new_linter] f d l
  show ?thesis by simp
qed

text \<open>
  On the one-line text \<open>[{"value":"x"}]\<close> the recorded error ends in \<open>(line 1)\<close>, so it
  is not the bare message \<open>Missing 'tagKey' at position 0\<close>.
\<close>

theorem missing_tagkey_bare_message_counterexample:
  "lint_file (decoder [(''[{\"value\":\"x\"}]'', JArr [JObj [(''value'', JStr ''x'')]])])
     (one_file ''tags.json'' ''[{\"value\":\"x\"}]'') new_linter ''tags.json'' =
   Inr \<lparr>final = \<lparr>errors = [''Missing 'tagKey' at position 0 (line 1)''], warnings = [],
                   line_map = [0 \<mapsto> 1]\<rparr>,
        printed = [Error_Count 1, Bullet ''Missing 'tagKey' at position 0 (line 1)''],
        verdict = False\<rparr>
   \<and> [''Missing 'tagKey' at position 0 (line 1)''] \<noteq> [''Missing 'tagKey' at position 0'']"
  by (simp add: linter_defs string_defs decoder_def one_file_def)

lemma validators_on_str:
  assumes "dict_get d ''value'' (JStr []) = JStr v"
  shows "\<exists>s. check_specific_tag_values bi self (JObj d) i line_info = Inr s"
  using assms
  by (simp add: check_specific_tag_values_def validate_business_groups_def
      validate_owning_business_group_def validate_environment_def and_then_def Let_def)

lemma present_and_blank_cases:
  "present_and_blank d key = Inl AttributeError \<and> (\<exists>v. map_of d key = Some v \<and> (\<forall>s. v \<noteq> JStr s))
   \<or> (\<exists>b. present_and_blank d key = Inr b) \<and> (\<exists>s. dict_get d key (JStr []) = JStr s)"
proof (cases "map_of d key")
  case None
  then show ?thesis by (auto simp: present_and_blank_def dict_get_def)
next
  case (Some v)
  then show ?thesis
    by (cases v) (auto simp: present_and_blank_def dict_get_def and_then_def)
qed

lemma check_item_raises_only_AttributeError:
  "check_item bi i item self = Inl e \<Longrightarrow> e = AttributeError"
proof (cases item)
  case (JObj d)
  assume r: "check_item bi i item self = Inl e"
  from present_and_blank_cases [of d "''tagKey''"] present_and_blank_cases [of d "''value''"]
  show ?thesis
  proof (elim disjE conjE exE)
    fix b b' s s'
    assume "present_and_blank d ''tagKey'' = Inr b" "present_and_blank d ''value'' = Inr b'"
      "dict_get d ''value'' (JStr []) = JStr s'"
    with r JObj validators_on_str [of d s' bi _ i] show ?thesis
      by (simp add: check_item_def and_then_def Let_def) (metis sum.distinct(1))
  qed (use r JObj in \<open>auto simp: check_item_def and_then_def Let_def\<close>)
qed (simp_all add: check_item_def)

lemma check_item_non_string_field:
  assumes "(\<exists>v. map_of d ''tagKey'' = Some v \<and> (\<forall>s. v \<noteq> JStr s))
         \<or> (\<exists>v. map_of d ''value'' = Some v \<and> (\<forall>s. v \<noteq> JStr s))"
  shows "check_item bi i (JObj d) self = Inl AttributeError"
proof -
  have "\<exists>e. check_item bi i (JObj d) self = Inl e"
    using assms present_and_blank_cases [of d "''tagKey''"] present_and_blank_cases [of d "''value''"]
    by (auto simp: check_item_def and_then_def Let_def dict_get_def)
  then show ?thesis using check_item_raises_only_AttributeError by blast
qed

lemma content_loop_non_string_field:
  assumes "JObj d \<in> set items"
    and "(\<exists>v. map_of d ''tagKey'' = Some v \<and> (\<forall>s. v \<noteq> JStr s))
         \<or> (\<exists>v. map_of d ''value'' = Some v \<and> (\<forall>s. v \<noteq> JStr s))"
  shows "content_loop bi (py_enumerate n items) self = Inl AttributeError"
  using assms(1)
proof (induction items arbitrary: n self)
  case Nil
  then show ?case by simp
next
  case (Cons item items)
  show ?case
  proof (cases "check_item bi n item self")
    case (Inl e)
    then show ?thesis using check_item_raises_only_AttributeError [OF Inl]
      by (simp add: and_then_def)
  next
    case (Inr s)
    then have "item \<noteq> JObj d"
      using check_item_non_string_field [OF assms(2), of bi n self] by auto
    with Cons.prems have "JObj d \<in> set items" by simp
    from Cons.IH [OF this] Inr show ?thesis by (simp add: and_then_def)
  qed
qed

text \<open>
  C1. The code does not tolerate a field that is not a string: when some element of the
  decoded array is an object in which \<open>tagKey\<close> or \<open>value\<close> is present and bound to
  a value that is not a string, \<open>lint_file\<close> raises \<^verbatim>\<open>AttributeError\<close> and returns neither
  report nor verdict.
\<close>

theorem non_string_field_raises:
  assumes "fs filename = Inr content" and "json_loads bi content = Inr (JArr items)"
    and "JObj d \<in> set items"
    and "(\<exists>v. map_of d ''tagKey'' = Some v \<and> (\<forall>s. v \<noteq> JStr s))
         \<or> (\<exists>v. map_of d ''value'' = Some v \<and> (\<forall>s. v \<noteq> JStr s))"
  shows "lint_file bi fs self filename = Inl AttributeError"
proof -
  have "lint_file bi fs self filename =
      and_then (check_content bi (check_structure (build_line_map new_linter content) (JArr items))
          (JArr items))
        (\<lambda>self3. Inr \<lparr>final = self3, printed = print_results self3,
                       verdict = (errors self3 = [])\<rparr>)"
    using assms(1,2) by (rule lint_file_decoded)
  then show ?thesis
    using content_loop_non_string_field [OF assms(3,4)]
    by (simp add: check_content_def and_then_def)
qed

theorem non_string_field_raises_witness:
  "one_file ''tags.json'' ''[{\"tagKey\":\"Owner\",\"value\":5}]'' ''tags.json'' =
     Inr ''[{\"tagKey\":\"Owner\",\"value\":5}]''
   \<and> json_loads (decoder [(''[{\"tagKey\":\"Owner\",\"value\":5}]'',
                JArr [JObj [(''tagKey'', JStr ''Owner''), (''value'', JInt 5)]])])
        ''[{\"tagKey\":\"Owner\",\"value\":5}]'' =
     Inr (JArr [JObj [(''tagKey'', JStr ''Owner''), (''value'', JInt 5)]])
   \<and> JObj [(''tagKey'', JStr ''Owner''), (''value'', JInt 5)] \<in>
        set [JObj [(''tagKey'', JStr ''Owner''), (''value'', JInt 5)]]
   \<and> map_of [(''tagKey'', JStr ''Owner''), (''value'', JInt 5)] ''value'' = Some (JInt 5)
   \<and> lint_file
     (decoder [(''[{\"tagKey\":\"Owner\",\"value\":5}]'',
                JArr [JObj [(''tagKey'', JStr ''Owner''), (''value'', JInt 5)]])])
     (one_file ''tags.json'' ''[{\"tagKey\":\"Owner\",\"value\":5}]'')
     new_linter ''tags.json'' = Inl AttributeError"
proof -
  let ?text = "''[{\"tagKey\":\"Owner\",\"value\":5}]''"
  let ?d = "[(''tagKey'', JStr ''Owner''), (''value'', JInt 5)]"
  have f: "one_file ''tags.json'' ?text ''tags.json'' = Inr ?text"
    by (simp add: one_file_def)
  have l: "json_loads (decoder [(?text, JArr [JObj ?d])]) ?text = Inr (JArr [JObj ?d])"
    by (simp add: decoder_def)
  have m: "JObj ?d \<in> set [JObj ?d]" by simp
  have v: "map_of ?d ''value'' = Some (JInt 5)" by simp
  then have b: "(\<exists>v. map_of ?d ''tagKey'' = Some v \<and> (\<forall>s. v \<noteq> JStr s))
         \<or> (\<exists>v. map_of ?d ''value'' = Some v \<and> (\<forall>s. v \<noteq> JStr s))" by simp
  from non_string_field_raises [of "one_file ''tags.json'' ?text" "''tags.json''" ?text
      "decoder [(?text, JArr [JObj ?d])]" "[JObj ?d]" ?d new_linter, OF f l m b] f l m v
  show ?thesis by blast
qed

end
